theory Spec2Isabelle
  imports Complex_Main "HOL-Library.AList"
begin

section \<open>Python values\<close>

text \<open>
  The state of the resume assistant holds values that come out of \<open>json.loads\<close> on the
  text of a language model, and the code inspects them at run time (\<open>isinstance\<close>,
  truthiness, \<open>len\<close>). They are modelled as the values \<open>json.loads\<close> can return.
  \<open>JFloat m e\<close> stands for the double \<open>m * 2^e\<close>; the non-finite doubles behave in every
  function below as a \<open>JFloat\<close> with \<open>m \<noteq> 0\<close>. A Python \<open>str\<close> is a \<open>string\<close> whose
  characters are code points below 256. A \<open>dict\<close> with string keys that is itself a value
  is an association list with distinct keys, read with \<open>map_of\<close>.
\<close>

datatype json =
    JNull
  | JBool bool
  | JInt int
  | JFloat int int
  | JStr string
  | JArr "json list"
  | JObj "(string \<times> json) list"

type_synonym pydict = "(string \<times> json) list"

datatype py_error =
    ValueError
  | TypeError
  | AttributeError
  | ServiceError

text \<open>Truthiness (\<open>if x:\<close>, \<open>not x\<close>, \<open>x or y\<close>).\<close>

fun py_truthy :: "json \<Rightarrow> bool" where
  "py_truthy JNull = False"
| "py_truthy (JBool b) = b"
| "py_truthy (JInt n) = (n \<noteq> 0)"
| "py_truthy (JFloat m e) = (m \<noteq> 0)"
| "py_truthy (JStr s) = (s \<noteq> [])"
| "py_truthy (JArr xs) = (xs \<noteq> [])"
| "py_truthy (JObj kvs) = (kvs \<noteq> [])"

text \<open>\<open>len(x)\<close>: \<open>None\<close> is the \<open>TypeError\<close> of a value without a length.\<close>

fun py_len :: "json \<Rightarrow> nat option" where
  "py_len (JStr s) = Some (length s)"
| "py_len (JArr xs) = Some (length xs)"
| "py_len (JObj kvs) = Some (length kvs)"
| "py_len _ = None"

text \<open>\<open>iter(x)\<close>: a list yields its elements, a string its characters, a dict its keys.\<close>

fun py_iter :: "json \<Rightarrow> json list option" where
  "py_iter (JStr s) = Some (map (\<lambda>c. JStr [c]) s)"
| "py_iter (JArr xs) = Some xs"
| "py_iter (JObj kvs) = Some (map (\<lambda>kv. JStr (fst kv)) kvs)"
| "py_iter _ = None"

text \<open>\<open>isinstance(x, int)\<close> and the integer it is: \<open>bool\<close> is a subclass of \<open>int\<close>.\<close>

fun py_int :: "json \<Rightarrow> int option" where
  "py_int (JInt n) = Some n"
| "py_int (JBool b) = Some (if b then 1 else 0)"
| "py_int _ = None"

text \<open>
  \<open>str(x)\<close> is the string itself for a \<open>str\<close>; the rendering of any other value is
  Python's and is taken as the parameter \<open>str_of\<close>.
\<close>

fun py_str :: "(json \<Rightarrow> string) \<Rightarrow> json \<Rightarrow> string" where
  "py_str str_of (JStr s) = s"
| "py_str str_of v = str_of v"

definition dict_has :: "pydict \<Rightarrow> string \<Rightarrow> bool" where
  "dict_has d k = (map_of d k \<noteq> None)"

definition dict_get :: "pydict \<Rightarrow> string \<Rightarrow> json \<Rightarrow> json" where
  "dict_get d k dflt = (case map_of d k of None \<Rightarrow> dflt | Some v \<Rightarrow> v)"

subsection \<open>String methods\<close>

text \<open>The characters \<open>str.isspace\<close> accepts among the code points below 256.\<close>

definition py_isspace :: "char \<Rightarrow> bool" where
  "py_isspace c = (of_char c \<in> {9, 10, 11, 12, 13, 28, 29, 30, 31, 32, 133, 160 :: nat})"

definition py_strip :: "string \<Rightarrow> string" where
  "py_strip s = rev (dropWhile py_isspace (rev (dropWhile py_isspace s)))"

definition py_lower_char :: "char \<Rightarrow> char" where
  "py_lower_char c =
     (let n = (of_char c :: nat) in
      if (65 \<le> n \<and> n \<le> 90) \<or> (192 \<le> n \<and> n \<le> 222 \<and> n \<noteq> 215)
      then char_of (n + 32) else c)"

definition py_lower :: "string \<Rightarrow> string" where
  "py_lower s = map py_lower_char s"

text \<open>\<open>s.split()\<close>: the maximal runs of non-space characters; \<open>w\<close> is the run being read, reversed.\<close>

fun split_ws :: "string \<Rightarrow> string \<Rightarrow> string list" where
  "split_ws w [] = (if w = [] then [] else [rev w])"
| "split_ws w (c # cs) =
     (if py_isspace c
      then (if w = [] then split_ws [] cs else rev w # split_ws [] cs)
      else split_ws (c # w) cs)"

definition py_split :: "string \<Rightarrow> string list" where
  "py_split s = split_ws [] s"

text \<open>\<open>sub in s\<close> for strings.\<close>

fun py_contains :: "string \<Rightarrow> string \<Rightarrow> bool" where
  "py_contains sub [] = (sub = [])"
| "py_contains sub (c # cs) = (take (length sub) (c # cs) = sub \<or> py_contains sub cs)"

section \<open>The conversation state\<close>

text \<open>
  \<open>ResumeBuilderState\<close> (agents/resume_builder_state.py). The field \<open>context\<close> is named
  \<open>context_msgs\<close> here. A message keeps its role and content; \<open>make_message\<close> also draws
  a fresh id and a timestamp, which no function below reads.
\<close>

record message =
  role :: string
  content :: json

datatype node_name = START | END | Named string

record state =
  jd_summary :: "string option"
  resume_sections :: "string \<rightharpoonup> json"
  section_objects :: "string \<rightharpoonup> pydict"
  current_section :: "string option"
  src_node :: "string option"
  recommended_answers :: "string \<rightharpoonup> json list"
  routing_attempts :: int
  resume_schema :: "(string \<rightharpoonup> json) option"
  cv_summary :: "string \<rightharpoonup> json"
  context_msgs :: "message list"
  context_summary :: "string option"
  execution_meta :: node_name

text \<open>\<open>ResumeBuilderState()\<close>: every field at its declared default.\<close>

definition ResumeBuilderState_init :: state where
  "ResumeBuilderState_init =
     \<lparr>jd_summary = None, resume_sections = Map.empty, section_objects = Map.empty,
      current_section = None, src_node = None, recommended_answers = Map.empty,
      routing_attempts = 0, resume_schema = None, cv_summary = Map.empty,
      context_msgs = [], context_summary = None, execution_meta = START\<rparr>"

definition make_message :: "string \<Rightarrow> json \<Rightarrow> message" where
  "make_message r c = \<lparr>role = r, content = c\<rparr>"

section \<open>Answer reconciliation (agents/create_section_node.py)\<close>

subsection \<open>\<open>safe_initialize_answers\<close>\<close>

text \<open>
  The loop \<open>for i in range(min(len(current_answers), len(questions))): new_answers[i] =
  current_answers[i]\<close> over the fresh list of empty strings.
\<close>

definition copy_front :: "json list \<Rightarrow> nat \<Rightarrow> json list" where
  "copy_front current_answers n =
     fold (\<lambda>i new_answers. new_answers[i := current_answers ! i])
       [0..<min (length current_answers) n] (replicate n (JStr ''''))"

definition safe_initialize_answers :: "state \<Rightarrow> string \<Rightarrow> json \<Rightarrow> py_error + state" where
  "safe_initialize_answers st section_name questions =
     (case py_len questions of
        None \<Rightarrow> Inl TypeError
      | Some n \<Rightarrow>
          (case recommended_answers st section_name of
             None \<Rightarrow>
               Inr (st\<lparr>recommended_answers :=
                          (recommended_answers st)(section_name \<mapsto> replicate n (JStr ''''))\<rparr>)
           | Some current_answers \<Rightarrow>
               if length current_answers \<noteq> n
               then Inr (st\<lparr>recommended_answers :=
                          (recommended_answers st)(section_name \<mapsto> copy_front current_answers n)\<rparr>)
               else Inr st))"

subsection \<open>The start of a section turn: lines 307 to 323 of \<open>_node\<close>\<close>

definition compact_section :: "string \<Rightarrow> pydict \<Rightarrow> pydict" where
  "compact_section s data =
     [(''section_name'', JStr s),
      (''alignment_score'', dict_get data ''alignment_score'' JNull),
      (''missing_requirements'', dict_get data ''missing_requirements'' (JArr [])),
      (''recommended_questions'', dict_get data ''recommended_questions'' (JArr []))]"

definition compact_sections :: "state \<Rightarrow> string \<rightharpoonup> pydict" where
  "compact_sections st = (\<lambda>s. map_option (compact_section s) (section_objects st s))"

text \<open>Returns the state and \<open>recommended_questions\<close>.\<close>

definition node_init_answers :: "state \<Rightarrow> py_error + (state \<times> json)" where
  "node_init_answers st =
     (case current_section st of
        None \<Rightarrow> Inr (st, JArr [])
      | Some cs \<Rightarrow>
          if cs = [] then Inr (st, JArr [])
          else
            (case compact_sections st cs of
               None \<Rightarrow> Inr (st, JArr [])
             | Some section_data \<Rightarrow>
                 (let recommended_questions =
                        dict_get section_data ''recommended_questions'' (JArr [])
                  in case safe_initialize_answers st cs recommended_questions of
                       Inl e \<Rightarrow> Inl e
                     | Inr st' \<Rightarrow> Inr (st', recommended_questions))))"

subsection \<open>\<open>detect_question_matches\<close>\<close>

text \<open>
  The confidence is the quotient of two word counts, a double in the source. It is the
  exact rational here: two such quotients with fewer than \<open>2^26\<close> words in each question
  compare as doubles the way they compare as rationals. \<open>sorted\<close> is stable, also with
  \<open>reverse=True\<close>, and so is \<open>sort_key\<close> on the negated confidence.
\<close>

fun question_scores :: "string set \<Rightarrow> nat \<Rightarrow> json list \<Rightarrow> py_error + (nat \<times> json \<times> rat) list" where
  "question_scores user_words idx [] = Inr []"
| "question_scores user_words idx (question # rest) =
     (case question of
        JStr q \<Rightarrow>
          (let question_words = set (py_split (py_lower q));
               common_words = user_words \<inter> question_words
           in case question_scores user_words (Suc idx) rest of
                Inl e \<Rightarrow> Inl e
              | Inr matches \<Rightarrow>
                  if card common_words > 0
                  then Inr ((idx, question,
                             of_nat (card common_words) / of_nat (max (card question_words) 1))
                            # matches)
                  else Inr matches)
      | _ \<Rightarrow> Inl AttributeError)"

definition detect_question_matches :: "string \<Rightarrow> json \<Rightarrow> py_error + (nat \<times> json \<times> rat) list" where
  "detect_question_matches user_answer questions =
     (let user_words = set (py_split (py_lower user_answer))
      in case py_iter questions of
           None \<Rightarrow> Inl TypeError
         | Some qs \<Rightarrow>
             (case question_scores user_words 0 qs of
                Inl e \<Rightarrow> Inl e
              | Inr matches \<Rightarrow> Inr (sort_key (\<lambda>m. - snd (snd m)) matches)))"

subsection \<open>The reconciliation block: lines 404 to 441 of \<open>_node\<close>\<close>

text \<open>The loop over \<open>question_matches\<close> (lines 413 to 420).\<close>

definition apply_question_matches :: "json list \<Rightarrow> json list \<Rightarrow> json list \<Rightarrow> json list" where
  "apply_question_matches question_matches updated_answers answers =
     fold (\<lambda>match_idx ans.
             case py_int match_idx of
               None \<Rightarrow> ans
             | Some k \<Rightarrow>
                 if 0 \<le> k \<and> k < int (length ans) \<and> k < int (length updated_answers)
                    \<and> py_truthy (updated_answers ! nat k)
                 then ans[nat k := updated_answers ! nat k]
                 else ans)
       question_matches answers"

text \<open>The loop over the answer array when no indices are given (lines 424 to 427).\<close>

definition threshold_pass :: "(json \<Rightarrow> string) \<Rightarrow> json list \<Rightarrow> json list \<Rightarrow> json list" where
  "threshold_pass str_of updated_answers answers =
     fold (\<lambda>i ans.
             if i < length updated_answers \<and> py_truthy (updated_answers ! i)
                \<and> (\<not> py_truthy (ans ! i) \<or> length (py_strip (py_str str_of (ans ! i))) < 5)
             then ans[i := updated_answers ! i]
             else ans)
       [0..<length answers] answers"

text \<open>
  The \<open>else\<close> clause of that \<open>for\<close> loop (lines 428 to 435). The loop has no \<open>break\<close>, so the
  clause runs every time the loop has run.
\<close>

definition keyword_fallback :: "string \<Rightarrow> json \<Rightarrow> json list \<Rightarrow> json list \<Rightarrow> py_error + json list" where
  "keyword_fallback user_text recommended_questions updated_answers answers =
     (case detect_question_matches user_text recommended_questions of
        Inl e \<Rightarrow> Inl e
      | Inr matches \<Rightarrow>
          (case matches of
             [] \<Rightarrow> Inr answers
           | best # _ \<Rightarrow>
               if updated_answers = [] then Inr answers
               else
                 (case find py_truthy updated_answers of
                    None \<Rightarrow> Inr answers
                  | Some new_answer \<Rightarrow>
                      if fst best < length answers
                      then Inr (answers[fst best := new_answer])
                      else Inr answers)))"

text \<open>
  The branches on the decision (lines 408 to 435), on the answer array of the current
  section. An exception leaves the array as the statements before it wrote it.
\<close>

definition reconcile_answers ::
  "(json \<Rightarrow> string) \<Rightarrow> pydict \<Rightarrow> string \<Rightarrow> json \<Rightarrow> json list \<Rightarrow> py_error option \<times> json list" where
  "reconcile_answers str_of parsed user_text recommended_questions answers =
     (if dict_has parsed ''question_matches'' \<and> dict_has parsed ''updated_answers''
      then
        (case dict_get parsed ''question_matches'' (JArr []) of
           JArr question_matches \<Rightarrow>
             (case dict_get parsed ''updated_answers'' (JArr []) of
                JArr updated_answers \<Rightarrow>
                  (None, apply_question_matches question_matches updated_answers answers)
              | _ \<Rightarrow> (None, answers))
         | _ \<Rightarrow> (None, answers))
      else
        (case map_of parsed ''updated_answers'' of
           Some (JArr updated_answers) \<Rightarrow>
             (let answers' = threshold_pass str_of updated_answers answers
              in case keyword_fallback user_text recommended_questions updated_answers answers' of
                   Inl e \<Rightarrow> (Some e, answers')
                 | Inr answers'' \<Rightarrow> (None, answers''))
         | _ \<Rightarrow> (None, answers)))"

text \<open>
  The whole block. Its last statement prints the table \<open>zip(recommended_questions,
  answers)\<close>, which raises on a \<open>recommended_questions\<close> that cannot be iterated.
\<close>

definition node_reconcile ::
  "(json \<Rightarrow> string) \<Rightarrow> state \<Rightarrow> pydict \<Rightarrow> string \<Rightarrow> json \<Rightarrow> py_error option \<times> state" where
  "node_reconcile str_of st parsed user_text recommended_questions =
     (case current_section st of
        None \<Rightarrow> (None, st)
      | Some cs \<Rightarrow>
          if cs \<noteq> [] \<and> (dict_has parsed ''question_matches'' \<or> dict_has parsed ''updated_answers'')
          then
            (case (case recommended_answers st cs of
                     Some answers \<Rightarrow> Some answers
                   | None \<Rightarrow> map_option (\<lambda>n. replicate n (JStr '''')) (py_len recommended_questions)) of
               None \<Rightarrow> (Some TypeError, st)
             | Some answers \<Rightarrow>
                 (let (err, answers') =
                        reconcile_answers str_of parsed user_text recommended_questions answers;
                      st' = st\<lparr>recommended_answers := (recommended_answers st)(cs \<mapsto> answers')\<rparr>
                  in case err of
                       Some e \<Rightarrow> (Some e, st')
                     | None \<Rightarrow>
                         (if py_iter recommended_questions = None then (Some TypeError, st')
                          else (None, st'))))
          else (None, st))"

section \<open>The decision parser and the gateway (agents/utils.py)\<close>

subsection \<open>\<open>extract_and_validate_json\<close>\<close>

text \<open>
  \<open>re.search(r'\{[^{}]*(?:\{[^{}]*\}[^{}]*)*\}', raw_text, re.DOTALL)\<close>: the leftmost
  brace from which the pattern matches, and the match. From an opening brace the pattern
  has one way to go: characters other than braces are skipped; an opening brace opens a
  group, in which a second opening brace fails; a closing brace closes the group when one
  is open and ends the match otherwise. \<open>scan_object inner cs\<close> is the number of characters
  of \<open>cs\<close> the match takes after the opening brace.
\<close>

fun scan_object :: "bool \<Rightarrow> string \<Rightarrow> nat option" where
  "scan_object inner [] = None"
| "scan_object inner (c # cs) =
     (if c = CHR ''}'' then (if inner then map_option Suc (scan_object False cs) else Some 1)
      else if c = CHR ''{'' then (if inner then None else map_option Suc (scan_object True cs))
      else map_option Suc (scan_object inner cs))"

fun re_search_object :: "string \<Rightarrow> string option" where
  "re_search_object [] = None"
| "re_search_object (c # cs) =
     (if c = CHR ''{''
      then (case scan_object False cs of
              Some n \<Rightarrow> Some (c # take n cs)
            | None \<Rightarrow> re_search_object cs)
      else re_search_object cs)"

text \<open>What \<open>logger.warning\<close> receives in the parser.\<close>

datatype log_entry = UnexpectedAction json

definition valid_actions :: "string set" where
  "valid_actions = {''answer'', ''route'', ''stay'', ''switch'', ''exit'', ''apply''}"

text \<open>\<open>x in s\<close> for a set \<open>s\<close> hashes \<open>x\<close>; a list or a dict has no hash.\<close>

fun py_hashable :: "json \<Rightarrow> bool" where
  "py_hashable (JArr xs) = False"
| "py_hashable (JObj kvs) = False"
| "py_hashable _ = True"

text \<open>
  \<open>json.loads\<close> is the parameter \<open>loads\<close>: \<open>None\<close> is its \<open>JSONDecodeError\<close>. The result
  is what was logged and what is returned or raised.
\<close>

definition extract_and_validate_json ::
  "(string \<Rightarrow> json option) \<Rightarrow> string \<Rightarrow> log_entry list \<times> (py_error + pydict)" where
  "extract_and_validate_json loads raw_text =
     (if raw_text = [] \<or> py_strip raw_text = [] then ([], Inl ValueError)
      else
        (case re_search_object raw_text of
           None \<Rightarrow>
             ([], Inr [(''action'', JStr ''answer''), (''route'', JNull),
                       (''answer'', JStr (py_strip raw_text))])
         | Some json_text \<Rightarrow>
             (case loads json_text of
                None \<Rightarrow> ([], Inl ValueError)
              | Some (JObj parsed) \<Rightarrow>
                  (case map_of parsed ''action'' of
                     None \<Rightarrow> ([], Inl ValueError)
                   | Some action \<Rightarrow>
                       if \<not> py_hashable action then ([], Inl TypeError)
                       else if action \<notin> JStr ` valid_actions
                       then ([UnexpectedAction action],
                             Inr (AList.update ''action'' (JStr ''answer'') parsed))
                       else ([], Inr parsed))
              | Some _ \<Rightarrow> ([], Inl ValueError))))"

subsection \<open>\<open>call_llm_json_decision\<close>\<close>

text \<open>
  The completion call either raises (\<open>Unreachable\<close>) or returns a response from which
  \<open>safe_extract_text\<close> reads a text or nothing. The requests themselves (the prompts) are
  not modelled: they are built from the state without changing it and only reach the
  completion service.
\<close>

datatype llm_outcome = Unreachable | Reply "string option"

definition offline_decision :: pydict where
  "offline_decision =
     [(''action'', JStr ''answer''), (''route'', JNull),
      (''answer'', JStr ''(Offline) I received your query and will help once an API key is configured.'')]"

definition error_decision :: pydict where
  "error_decision =
     [(''action'', JStr ''answer''), (''route'', JNull),
      (''answer'', JStr ''I encountered an error processing your request. Please try again.'')]"

text \<open>
  \<open>offline\<close> is \<open>OFFLINE_MODE\<close>. The result is the number of completion requests issued and
  what is returned or raised. The parser is called inside the \<open>try\<close> whose handler is
  \<open>except Exception\<close>.
\<close>

definition call_llm_json_decision ::
  "bool \<Rightarrow> (string \<Rightarrow> json option) \<Rightarrow> llm_outcome \<Rightarrow> nat \<times> (py_error + pydict)" where
  "call_llm_json_decision offline loads outcome =
     (if offline then (0, Inr offline_decision)
      else
        (case outcome of
           Unreachable \<Rightarrow> (1, Inr error_decision)
         | Reply text \<Rightarrow>
             (let raw = (case text of None \<Rightarrow> [] | Some t \<Rightarrow> t)
              in case snd (extract_and_validate_json loads raw) of
                   Inl e \<Rightarrow> (1, Inr error_decision)
                 | Inr parsed \<Rightarrow> (1, Inr parsed))))"

subsection \<open>\<open>clone_state\<close>\<close>

text \<open>
  \<open>getattr(old_state, f, d) or d\<close> reads the field \<open>f\<close>, which every state has; an empty
  dict or list is replaced by a new empty one. \<open>dict(...)\<close> and \<open>list(...)\<close> copy.
\<close>

definition clone_state :: "state \<Rightarrow> state" where
  "clone_state old_state =
     ResumeBuilderState_init
       \<lparr>jd_summary := jd_summary old_state,
        resume_sections := resume_sections old_state,
        section_objects := section_objects old_state,
        context_msgs := context_msgs old_state,
        current_section := current_section old_state,
        cv_summary := cv_summary old_state,
        recommended_answers := recommended_answers old_state\<rparr>"

section \<open>The graph (graph_builder.py)\<close>

definition SECTION_NAMES :: "string list" where
  "SECTION_NAMES =
     [''skills'', ''experiences'', ''education'', ''projects'', ''summary'', ''contact'',
      ''certificates'', ''publications'', ''languages'', ''recommendations'', ''custom'']"

text \<open>\<open>route_to_section\<close>, the function of every conditional edge.\<close>

definition route_to_section :: "state \<Rightarrow> node_name" where
  "route_to_section st =
     (if src_node st = current_section st then END
      else
        (case current_section st of
           None \<Rightarrow> Named ''general_chat''
         | Some s \<Rightarrow> if s \<in> set SECTION_NAMES then Named s else END))"

text \<open>The first statement of a section node (line 292 of \<open>_node\<close>).\<close>

definition node_enter :: "state \<Rightarrow> state" where
  "node_enter st = st\<lparr>src_node := current_section st\<rparr>"

section \<open>The top-level router (agents/general_chat_section_routing.py)\<close>

text \<open>
  The completion service is the parameter \<open>llm\<close>, asked once at most at each call site of a
  turn; \<open>json.dumps\<close> is the parameter \<open>dumps\<close>. A character outside Latin-1 in a literal
  of the source is written as its UTF-8 bytes; no function measures such a literal. A node
  returns the state object or the message it has just appended.
\<close>

datatype llm_call = DecisionCall | FallbackCall | SummaryCall | AnalysisCall

datatype node_return = ReturnsState | ReturnsMessage message

definition append_message :: "state \<Rightarrow> message \<Rightarrow> state" where
  "append_message st m = st\<lparr>context_msgs := context_msgs st @ [m]\<rparr>"

definition em_dash :: string where
  "em_dash = [CHR 0xE2, CHR 0x80, CHR 0x94]"

definition apostrophe :: string where
  "apostrophe = [CHR 0x27]"

text \<open>The last two branches of the router (lines 170 to 180).\<close>

definition router_reply :: "nat \<Rightarrow> json \<Rightarrow> json \<Rightarrow> state \<Rightarrow> nat \<times> node_return \<times> state" where
  "router_reply n action answer_text st =
     (if action = JStr ''answer''
      then
        (let answer_text' =
               (if py_truthy answer_text then answer_text
                else JStr (''I cannot determine an answer '' @ em_dash
                           @ '' please provide more details or ask to route to a specific section.''));
             state_response = make_message ''assistant'' answer_text'
         in (n, ReturnsMessage state_response, append_message st state_response))
      else
        (let fallback = ''I couldn'' @ apostrophe @ ''t decide automatically. Would you like me to (1) analyze sections to suggest improvements, or (2) open a specific section? Use /skills, /experiences, /education, or /projects.'';
             state_response = make_message ''assistant'' (JStr fallback)
         in (n, ReturnsMessage state_response, append_message st state_response)))"

text \<open>
  The router from line 104 on: the decision of the gateway, the second completion call
  when the gateway raises, and the branches on the decision. The result is the number of
  completion requests issued, what the node returns, and the state.
\<close>

definition router_consult ::
  "bool \<Rightarrow> (string \<Rightarrow> json option) \<Rightarrow> (json \<Rightarrow> string) \<Rightarrow> (llm_call \<Rightarrow> llm_outcome)
     \<Rightarrow> state \<Rightarrow> nat \<times> node_return \<times> state" where
  "router_consult offline loads dumps llm st =
     (case call_llm_json_decision offline loads (llm DecisionCall) of
        (n, Inl e) \<Rightarrow>
          (case current_section st of
             Some (c # cs) \<Rightarrow> (n, ReturnsState, st)
           | _ \<Rightarrow>
               (let text =
                  (case llm FallbackCall of
                     Unreachable \<Rightarrow>
                       ''Sorry '' @ em_dash @ '' analysis temporarily unavailable. Try again later.''
                   | Reply (Some (c # cs)) \<Rightarrow> c # cs
                   | Reply _ \<Rightarrow>
                       ''Sorry '' @ em_dash @ '' I couldn'' @ apostrophe @ ''t generate a response.'')
                in (n + 1, ReturnsState,
                    append_message st (make_message ''assistant'' (JStr text)))))
      | (n, Inr parsed) \<Rightarrow>
          (let action = dict_get parsed ''action'' JNull;
               route_to = dict_get parsed ''route'' JNull;
               answer_text = dict_get parsed ''answer'' JNull
           in case route_to of
                JStr r \<Rightarrow>
                  if action = JStr ''route'' \<and> r \<noteq> [] \<and> r \<in> set SECTION_NAMES
                  then
                    (let reason = dict_get parsed ''reason'' JNull;
                         note = (if py_truthy reason then reason
                                 else JStr (''Routing to '' @ apostrophe @ r @ apostrophe));
                         confirm_json = JObj [(''route'', route_to), (''note'', note)]
                     in (n, ReturnsState,
                         append_message (st\<lparr>current_section := Some r\<rparr>)
                           (make_message ''assistant'' (JStr (dumps confirm_json)))))
                  else router_reply n action answer_text st
              | _ \<Rightarrow> router_reply n action answer_text st))"


text \<open>\<open>general_chat_and_section_routing\<close>.\<close>

definition general_chat_and_section_routing ::
  "bool \<Rightarrow> (string \<Rightarrow> json option) \<Rightarrow> (json \<Rightarrow> string) \<Rightarrow> (llm_call \<Rightarrow> llm_outcome)
     \<Rightarrow> state \<Rightarrow> nat \<times> node_return \<times> state" where
  "general_chat_and_section_routing offline loads dumps llm st =
     (case current_section st of
        Some (c # cs) \<Rightarrow>
          (let route_json = JObj [(''route'', JStr (c # cs))]
           in (0, ReturnsState,
               append_message st (make_message ''assistant'' (JStr (dumps route_json)))))
      | _ \<Rightarrow> router_consult offline loads dumps llm st)"

section \<open>Applying a section (agents/create_section_node.py)\<close>

subsection \<open>\<open>update_cv_summary\<close>\<close>

text \<open>
  The loop that builds \<open>qa_pairs\<close> from \<open>zip(recommended_questions, recommended_answers)\<close>
  (the second parameter is named \<open>section_answers\<close> here):
  a truthy answer that is not a string has no \<open>strip\<close>.
\<close>

fun collect_qa_pairs :: "nat \<Rightarrow> (json \<times> json) list \<Rightarrow> py_error + (json \<times> string \<times> nat) list" where
  "collect_qa_pairs i [] = Inr []"
| "collect_qa_pairs i ((question, answer) # rest) =
     (if py_truthy answer
      then
        (case answer of
           JStr a \<Rightarrow>
             (case collect_qa_pairs (Suc i) rest of
                Inl e \<Rightarrow> Inl e
              | Inr qa_pairs \<Rightarrow>
                  if py_strip a = [] then Inr qa_pairs
                  else Inr ((question, py_strip a, i) # qa_pairs))
         | _ \<Rightarrow> Inl AttributeError)
      else collect_qa_pairs (Suc i) rest)"

definition offline_negations :: "string list" where
  "offline_negations =
     [''no '', ''don'' @ apostrophe @ ''t'', ''haven'' @ apostrophe @ ''t'', ''never'', ''not '',
      ''lack'', ''no experience'', ''not familiar'', ''dont have'', ''do not have'',
      ''unfamiliar'', ''missing'', ''limited experience'']"

definition fallback_negations :: "string list" where
  "fallback_negations =
     [''no '', ''don'' @ apostrophe @ ''t'', ''haven'' @ apostrophe @ ''t'', ''never'', ''not '',
      ''lack'', ''no experience'', ''not familiar'', ''unfamiliar'']"

fun py_join :: "string \<Rightarrow> string list \<Rightarrow> string" where
  "py_join sep [] = []"
| "py_join sep [x] = x"
| "py_join sep (x # y # ys) = x @ sep @ py_join sep (y # ys)"

text \<open>The signed bullets of the deterministic paths, joined by newlines.\<close>

definition sentiment_points :: "string list \<Rightarrow> (json \<times> string \<times> nat) list \<Rightarrow> string" where
  "sentiment_points negations qa_pairs =
     py_join [CHR 0x0A]
       (map (\<lambda>qa. (if list_ex (\<lambda>neg. py_contains neg (py_lower (fst (snd qa)))) negations
                    then CHR ''-'' else CHR ''+'')
                   # take 100 (fst (snd qa)))
            qa_pairs)"

text \<open>
  The result is the summary returned, or the exception raised before the \<open>try\<close>. Inside
  the \<open>try\<close> every exception returns the summary unchanged.
\<close>

definition update_cv_summary ::
  "bool \<Rightarrow> (string \<Rightarrow> json option) \<Rightarrow> (llm_call \<Rightarrow> llm_outcome) \<Rightarrow> state \<Rightarrow> string
     \<Rightarrow> json \<Rightarrow> json list \<Rightarrow> py_error + (string \<rightharpoonup> json)" where
  "update_cv_summary offline loads llm st section_name recommended_questions section_answers =
     (let current_cv_summary = cv_summary st
      in case py_iter recommended_questions of
           None \<Rightarrow> Inl TypeError
         | Some questions \<Rightarrow>
             (case collect_qa_pairs 0 (zip questions section_answers) of
                Inl e \<Rightarrow> Inl e
              | Inr qa_pairs \<Rightarrow>
                  if qa_pairs = [] then Inr current_cv_summary
                  else if offline
                  then Inr (current_cv_summary
                              (section_name \<mapsto> JStr (sentiment_points offline_negations qa_pairs)))
                  else
                    (case llm SummaryCall of
                       Unreachable \<Rightarrow> Inr current_cv_summary
                     | Reply text \<Rightarrow>
                         (let raw = (case text of None \<Rightarrow> [] | Some t \<Rightarrow> t);
                              deterministic =
                                Inr (current_cv_summary
                                       (section_name \<mapsto>
                                          JStr (sentiment_points fallback_negations qa_pairs)))
                          in case re_search_object raw of
                               None \<Rightarrow> deterministic
                             | Some json_text \<Rightarrow>
                                 (case loads json_text of
                                    None \<Rightarrow> deterministic
                                  | Some (JObj result) \<Rightarrow>
                                      (case map_of result ''section_points'' of
                                         None \<Rightarrow> deterministic
                                       | Some section_points \<Rightarrow>
                                           Inr (current_cv_summary(section_name \<mapsto> section_points)))
                                  | Some (JArr xs) \<Rightarrow>
                                      if JStr ''section_points'' \<in> set xs
                                      then Inr current_cv_summary else deterministic
                                  | Some (JStr s) \<Rightarrow>
                                      if py_contains ''section_points'' s
                                      then Inr current_cv_summary else deterministic
                                  | Some _ \<Rightarrow> Inr current_cv_summary)))))"

subsection \<open>\<open>apply_section_changes\<close>\<close>

definition offline_analysis :: "string \<Rightarrow> pydict" where
  "offline_analysis section_name =
     [(''alignment_score'', JInt 75),
      (''missing_requirements'', JArr [JStr ''More specific examples needed'']),
      (''recommended_questions'',
         JArr [JStr (''Can you add more specific examples to your '' @ section_name @ ''?'')]),
      (''analysis_summary'', JStr ''Offline mode - please configure API key for full analysis'')]"

definition error_analysis :: "string \<Rightarrow> pydict" where
  "error_analysis section_name =
     [(''alignment_score'', JInt 70),
      (''missing_requirements'', JArr [JStr ''Analysis error - please try again'']),
      (''recommended_questions'',
         JArr [JStr (''Let'' @ apostrophe @ ''s continue improving your '' @ section_name
                     @ ''. What specific details can you add?'')]),
      (''analysis_summary'',
         JStr (''There was an error analyzing the updated '' @ section_name
               @ ''. The changes have been saved.''))]"

definition setdefault :: "string \<Rightarrow> json \<Rightarrow> pydict \<Rightarrow> pydict" where
  "setdefault k v d = (if dict_has d k then d else d @ [(k, v)])"

text \<open>
  Lines 149 to 160: the aggregation step. An exception of \<open>update_cv_summary\<close> is logged
  and the summary stays.
\<close>

definition aggregate_step ::
  "bool \<Rightarrow> (string \<Rightarrow> json option) \<Rightarrow> (llm_call \<Rightarrow> llm_outcome) \<Rightarrow> state \<Rightarrow> string \<Rightarrow> state" where
  "aggregate_step offline loads llm st section_name =
     (let section_questions =
            dict_get (case section_objects st section_name of None \<Rightarrow> [] | Some d \<Rightarrow> d)
              ''recommended_questions'' (JArr []);
          section_answers =
            (case recommended_answers st section_name of None \<Rightarrow> [] | Some a \<Rightarrow> a)
      in if py_truthy section_questions \<and> section_answers \<noteq> []
         then
           (case update_cv_summary offline loads llm st section_name
                   section_questions section_answers of
              Inl e \<Rightarrow> st
            | Inr updated_cv_summary \<Rightarrow> st\<lparr>cv_summary := updated_cv_summary\<rparr>)
         else st)"

text \<open>
  Lines 179 to 247: the re-analysis inside its \<open>try\<close>. Every exception returns the error
  analysis and leaves the state as the statements before it wrote it. The last \<open>print\<close>
  takes \<open>len\<close> of the new questions.
\<close>

definition reanalyze_step ::
  "bool \<Rightarrow> (string \<Rightarrow> json option) \<Rightarrow> (llm_call \<Rightarrow> llm_outcome) \<Rightarrow> state \<Rightarrow> string
     \<Rightarrow> state \<times> pydict" where
  "reanalyze_step offline loads llm st section_name =
     (if offline then (st, offline_analysis section_name)
      else
        (case llm AnalysisCall of
           Unreachable \<Rightarrow> (st, error_analysis section_name)
         | Reply text \<Rightarrow>
             (let raw = (case text of None \<Rightarrow> [] | Some t \<Rightarrow> t);
                  loaded =
                    (case re_search_object raw of
                       None \<Rightarrow> JObj []
                     | Some json_text \<Rightarrow>
                         (case loads json_text of None \<Rightarrow> JObj [] | Some v \<Rightarrow> v))
              in case loaded of
                   JObj d \<Rightarrow>
                     (let analysis_result =
                            setdefault ''analysis_summary'' (JStr ''Section updated successfully'')
                              (setdefault ''recommended_questions'' (JArr [])
                                 (setdefault ''missing_requirements'' (JArr [])
                                    (setdefault ''alignment_score'' (JInt 70) d)));
                          questions = dict_get analysis_result ''recommended_questions'' JNull;
                          section_object =
                            (case section_objects st section_name of None \<Rightarrow> [] | Some x \<Rightarrow> x);
                          section_object' =
                            AList.update ''last_updated'' (JStr ''just_now'')
                              (AList.update ''recommended_questions'' questions
                                 (AList.update ''missing_requirements''
                                      (dict_get analysis_result ''missing_requirements'' JNull)
                                    (AList.update ''alignment_score''
                                         (dict_get analysis_result ''alignment_score'' JNull)
                                       section_object)));
                          st' = st\<lparr>section_objects :=
                                      (section_objects st)(section_name \<mapsto> section_object')\<rparr>
                      in case py_len questions of
                           Some n \<Rightarrow>
                             (st'\<lparr>recommended_answers :=
                                    (recommended_answers st')
                                      (section_name \<mapsto>
                                         (if py_truthy questions then replicate n (JStr '''')
                                          else []))\<rparr>,
                              analysis_result)
                         | None \<Rightarrow>
                             if py_truthy questions then (st', error_analysis section_name)
                             else
                               (st'\<lparr>recommended_answers :=
                                      (recommended_answers st')(section_name \<mapsto> [])\<rparr>,
                                error_analysis section_name))
                 | _ \<Rightarrow> (st, error_analysis section_name))))"

text \<open>The whole function: the state after it and the analysis it returns.\<close>

definition apply_section_changes ::
  "bool \<Rightarrow> (string \<Rightarrow> json option) \<Rightarrow> (llm_call \<Rightarrow> llm_outcome) \<Rightarrow> state \<Rightarrow> string \<Rightarrow> json
     \<Rightarrow> state \<times> pydict" where
  "apply_section_changes offline loads llm st section_name updated_content =
     (let st1 = st\<lparr>resume_sections := (resume_sections st)(section_name \<mapsto> updated_content)\<rparr>;
          st2 = aggregate_step offline loads llm st1 section_name;
          st3 = st2\<lparr>recommended_answers := (recommended_answers st2)(section_name \<mapsto> [])\<rparr>
      in reanalyze_step offline loads llm st3 section_name)"

section \<open>Example inputs\<close>

text \<open>
  Concrete states and a stand-in for \<open>str\<close> on values that are not strings; the examples
  below hold strings only, so the stand-in is never consulted there.
\<close>

definition ex_state :: state where
  "ex_state = ResumeBuilderState_init
     \<lparr>section_objects := [''skills'' \<mapsto> [(''recommended_questions'', JArr [JStr ''q1'', JStr ''q2''])]],
      current_section := Some ''skills'',
      recommended_answers := [''skills'' \<mapsto> [JStr ''a'', JStr ''b'', JStr ''c'']]\<rparr>"

definition str_unused :: "json \<Rightarrow> string" where
  "str_unused v = []"

definition ex_answers_state :: "json list \<Rightarrow> state" where
  "ex_answers_state answers = ResumeBuilderState_init
     \<lparr>current_section := Some ''skills'',
      recommended_answers := [''skills'' \<mapsto> answers]\<rparr>"

text \<open>The value of \<open>json.loads\<close> at the texts of the examples; any other text here is not JSON.\<close>

definition loads_example :: "string \<Rightarrow> json option" where
  \<open>loads_example s =
     (if s = ''{"action": "dance", "answer": "hi"}''
      then Some (JObj [(''action'', JStr ''dance''), (''answer'', JStr ''hi'')])
      else if s = ''{"action": []}''
      then Some (JObj [(''action'', JArr [])])
      else None)\<close>

text \<open>A service that answers the summary request with plain text and fails on the analysis.\<close>

definition llm_analysis_down :: "llm_call \<Rightarrow> llm_outcome" where
  "llm_analysis_down c =
     (case c of AnalysisCall \<Rightarrow> Unreachable | _ \<Rightarrow> Reply (Some ''no json''))"

definition ex_apply_state :: state where
  "ex_apply_state = ResumeBuilderState_init
     \<lparr>resume_sections := [''skills'' \<mapsto> JStr ''old content''],
      section_objects :=
        [''skills'' \<mapsto> [(''recommended_questions'', JArr [JStr ''Which frameworks?''])]],
      current_section := Some ''skills'',
      recommended_answers := [''skills'' \<mapsto> [JStr ''Django for five years'']]\<rparr>"

text \<open>
  Two sections with questions; the state after an apply in \<open>skills\<close> whose analysis call
  failed, followed by a switch to \<open>education\<close>; and that state once the turn in
  \<open>education\<close> has initialised its answer array.
\<close>

definition ex_two_sections_state :: state where
  "ex_two_sections_state = ResumeBuilderState_init
     \<lparr>resume_sections := [''skills'' \<mapsto> JStr ''old content''],
      section_objects :=
        [''skills'' \<mapsto> [(''recommended_questions'', JArr [JStr ''Which frameworks?''])],
         ''education'' \<mapsto> [(''recommended_questions'', JArr [JStr ''Which degree?''])]],
      current_section := Some ''skills'',
      recommended_answers := [''skills'' \<mapsto> [JStr ''Django for five years'']]\<rparr>"

definition ex_switched_state :: state where
  "ex_switched_state =
     (fst (apply_section_changes False loads_example llm_analysis_down ex_two_sections_state
             ''skills'' (JStr ''new content'')))
       \<lparr>current_section := Some ''education''\<rparr>"

definition ex_education_ready_state :: state where
  "ex_education_ready_state =
     ex_switched_state\<lparr>recommended_answers :=
       (recommended_answers ex_switched_state)(''education'' \<mapsto> [JStr ''''])\<rparr>"

section \<open>Properties of the answer reconciliation\<close>

lemma fold_copy_front:
  "m \<le> length base \<Longrightarrow> m \<le> length cur \<Longrightarrow>
   fold (\<lambda>i new_answers. new_answers[i := cur ! i]) [0..<m] base = take m cur @ drop m base"
proof (induction m)
  case 0
  then show ?case by simp
next
  case (Suc m)
  then have IH: "fold (\<lambda>i new_answers. new_answers[i := cur ! i]) [0..<m] base = take m cur @ drop m base"
    by simp
  have "(take m cur @ drop m base)[m := cur ! m] = take (Suc m) cur @ drop (Suc m) base"
    using Suc.prems
    by (intro nth_equalityI) (auto simp: nth_append nth_list_update less_Suc_eq)
  then show ?case using IH by simp
qed

lemma copy_front_eq:
  "copy_front cur n = take n cur @ replicate (n - length cur) (JStr '''')"
proof -
  let ?m = "min (length cur) n"
  have "copy_front cur n = take ?m cur @ drop ?m (replicate n (JStr ''''))"
    unfolding copy_front_def by (rule fold_copy_front) simp_all
  also have "\<dots> = take n cur @ replicate (n - length cur) (JStr '''')"
    by (cases "length cur \<le> n") (simp_all add: min_def)
  finally show ?thesis .
qed

lemma truthy_not_null: "py_truthy v \<Longrightarrow> v \<noteq> JNull"
  by (cases v) simp_all

lemma length_apply_question_matches [simp]:
  "length (apply_question_matches qm ua a) = length a"
  unfolding apply_question_matches_def
  by (induction qm arbitrary: a) (auto split: option.splits)

lemma null_apply_question_matches:
  "JNull \<notin> set a \<Longrightarrow> JNull \<notin> set (apply_question_matches qm ua a)"
  unfolding apply_question_matches_def
proof (induction qm arbitrary: a)
  case Nil
  then show ?case by simp
next
  case (Cons m qm)
  show ?case
  proof (cases "py_int m")
    case None
    then show ?thesis using Cons by simp
  next
    case (Some k)
    show ?thesis
    proof (cases "0 \<le> k \<and> k < int (length a) \<and> k < int (length ua) \<and> py_truthy (ua ! nat k)")
      case True
      then have "ua ! nat k \<noteq> JNull" using truthy_not_null by blast
      then have "JNull \<notin> set (a[nat k := ua ! nat k])"
        using Cons.prems set_update_subset_insert[of a "nat k" "ua ! nat k"] by auto
      then show ?thesis using Cons.IH Some True by simp
    next
      case False
      then show ?thesis using Cons Some by auto
    qed
  qed
qed


lemma threshold_fold_length:
  "length (fold (\<lambda>i ans.
             if i < length ua \<and> py_truthy (ua ! i)
                \<and> (\<not> py_truthy (ans ! i) \<or> length (py_strip (py_str str_of (ans ! i))) < 5)
             then ans[i := ua ! i] else ans) js a) = length a"
  by (induction js arbitrary: a) auto

lemma length_threshold_pass [simp]:
  "length (threshold_pass str_of ua a) = length a"
  unfolding threshold_pass_def by (rule threshold_fold_length)

lemma threshold_fold_null:
  "JNull \<notin> set a \<Longrightarrow>
   JNull \<notin> set (fold (\<lambda>i ans.
             if i < length ua \<and> py_truthy (ua ! i)
                \<and> (\<not> py_truthy (ans ! i) \<or> length (py_strip (py_str str_of (ans ! i))) < 5)
             then ans[i := ua ! i] else ans) js a)"
proof (induction js arbitrary: a)
  case Nil
  then show ?case by simp
next
  case (Cons j js)
  have step: "JNull \<notin> set (a[j := ua ! j])" if "py_truthy (ua ! j)"
    using that Cons.prems truthy_not_null set_update_subset_insert[of a j "ua ! j"] by auto
  show ?case using Cons.IH Cons.prems step by simp
qed

lemma null_threshold_pass:
  "JNull \<notin> set a \<Longrightarrow> JNull \<notin> set (threshold_pass str_of ua a)"
  unfolding threshold_pass_def by (rule threshold_fold_null)

lemma keyword_fallback_length:
  "keyword_fallback user_text qs ua a = Inr a' \<Longrightarrow> length a' = length a"
  unfolding keyword_fallback_def
  by (auto split: sum.splits list.splits if_splits option.splits)

lemma keyword_fallback_null:
  assumes "keyword_fallback user_text qs ua a = Inr a'" and "JNull \<notin> set a"
  shows "JNull \<notin> set a'"
proof -
  have upd: "JNull \<notin> set (a[i := v])" if "find py_truthy ua = Some v" for i v
  proof -
    have "py_truthy v" using that by (auto simp: find_Some_iff)
    then have "v \<noteq> JNull" by (rule truthy_not_null)
    then show ?thesis using assms(2) set_update_subset_insert[of a i v] by auto
  qed
  show ?thesis
    using assms upd unfolding keyword_fallback_def
    by (auto split: sum.splits list.splits if_splits option.splits)
qed

lemma reconcile_answers_length:
  "length (snd (reconcile_answers str_of parsed user_text qs a)) = length a"
  unfolding reconcile_answers_def
  by (auto split: json.splits option.splits sum.splits simp: Let_def keyword_fallback_length)

lemma reconcile_answers_null:
  "JNull \<notin> set a \<Longrightarrow> JNull \<notin> set (snd (reconcile_answers str_of parsed user_text qs a))"
  unfolding reconcile_answers_def
  by (auto split: json.splits option.splits sum.splits
           simp: Let_def null_apply_question_matches null_threshold_pass
           dest: keyword_fallback_null[OF _ null_threshold_pass])

lemma node_init_answers_current:
  assumes "current_section st = Some s" "s \<noteq> []" "section_objects st s = Some so"
      and "dict_get so ''recommended_questions'' (JArr []) = JArr qs"
  shows "\<exists>st1. node_init_answers st = Inr (st1, JArr qs)
           \<and> recommended_answers st1 s =
               Some (take (length qs) (case recommended_answers st s of None \<Rightarrow> [] | Some a \<Rightarrow> a)
                     @ replicate (length qs - length (case recommended_answers st s of None \<Rightarrow> [] | Some a \<Rightarrow> a)) (JStr ''''))
           \<and> current_section st1 = Some s"
  using assms
  by (auto simp: node_init_answers_def compact_sections_def compact_section_def dict_get_def
        safe_initialize_answers_def copy_front_eq split: option.splits)

lemma node_reconcile_current:
  assumes "current_section st1 = Some s" "recommended_answers st1 s = Some a"
  shows "\<exists>answers. recommended_answers (snd (node_reconcile str_of st1 parsed user_text qs)) s = Some answers
           \<and> length answers = length a \<and> (JNull \<notin> set a \<longrightarrow> JNull \<notin> set answers)"
proof -
  obtain err a' where r: "reconcile_answers str_of parsed user_text qs a = (err, a')"
    by (cases "reconcile_answers str_of parsed user_text qs a")
  have "length a' = length a" using reconcile_answers_length[of str_of parsed user_text qs a] r by simp
  moreover have "JNull \<notin> set a \<Longrightarrow> JNull \<notin> set a'"
    using reconcile_answers_null[of a str_of parsed user_text qs] r by simp
  ultimately show ?thesis
    using assms r
    by (auto simp: node_reconcile_def Let_def split: option.splits)
qed

text \<open>
  Claim C1, as the code has it: the invariant is that of the section being reconciled.
  Let \<open>s\<close> be the current section, with an entry in \<open>section_objects\<close> whose
  \<open>recommended_questions\<close> is a list \<open>qs\<close> (an absent key reads as the empty list), and let
  \<open>existing\<close> be its answer array at the start of the turn (empty when there is none).
  The start of the turn leaves the array as the first \<open>length qs\<close> entries of \<open>existing\<close>
  followed by empty strings up to that length, and after the reconciliation block, whatever
  the decision and the user text, the array still has exactly \<open>length qs\<close> slots; when no
  slot of \<open>existing\<close> was null, none is afterwards.
\<close>

theorem answers_length_invariant:
  assumes "current_section st = Some s" and "s \<noteq> []"
      and "section_objects st s = Some so"
      and "dict_get so ''recommended_questions'' (JArr []) = JArr qs"
      and "existing = (case recommended_answers st s of None \<Rightarrow> [] | Some a \<Rightarrow> a)"
  shows "\<exists>st1. node_init_answers st = Inr (st1, JArr qs)
           \<and> recommended_answers st1 s =
               Some (take (length qs) existing @ replicate (length qs - length existing) (JStr ''''))
           \<and> (\<forall>str_of parsed user_text.
                 \<exists>answers.
                   recommended_answers (snd (node_reconcile str_of st1 parsed user_text (JArr qs))) s
                     = Some answers
                   \<and> length answers = length qs
                   \<and> (JNull \<notin> set existing \<longrightarrow> JNull \<notin> set answers))"
proof -
  let ?a1 = "take (length qs) existing @ replicate (length qs - length existing) (JStr '''')"
  obtain st1 where st1: "node_init_answers st = Inr (st1, JArr qs)"
      "recommended_answers st1 s = Some ?a1" "current_section st1 = Some s"
    using node_init_answers_current[OF assms(1-4)] assms(5) by auto
  have len: "length ?a1 = length qs" by auto
  have nul: "JNull \<notin> set existing \<Longrightarrow> JNull \<notin> set ?a1"
    by (auto dest: in_set_takeD)
  show ?thesis
    using st1(1,2) node_reconcile_current[OF st1(3) st1(2)] len nul by metis
qed

text \<open>
  At \<open>existing = ["a", "b", "c"]\<close> and two questions the array is cut to \<open>["a", "b"]\<close>.
\<close>

theorem answers_length_invariant_witness:
  "\<exists>st1. node_init_answers ex_state = Inr (st1, JArr [JStr ''q1'', JStr ''q2''])
      \<and> recommended_answers st1 ''skills'' = Some [JStr ''a'', JStr ''b'']
      \<and> (\<forall>str_of parsed user_text.
             \<exists>answers.
               recommended_answers
                 (snd (node_reconcile str_of st1 parsed user_text (JArr [JStr ''q1'', JStr ''q2''])))
                 ''skills'' = Some answers
               \<and> length answers = 2
               \<and> JNull \<notin> set answers)"
proof -
  have h1: "current_section ex_state = Some ''skills''"
    by (simp add: ex_state_def)
  have h2: "''skills'' \<noteq> []" by simp
  have h3: "section_objects ex_state ''skills''
              = Some [(''recommended_questions'', JArr [JStr ''q1'', JStr ''q2''])]"
    by (simp add: ex_state_def)
  have h4: "dict_get [(''recommended_questions'', JArr [JStr ''q1'', JStr ''q2''])]
              ''recommended_questions'' (JArr []) = JArr [JStr ''q1'', JStr ''q2'']"
    by (simp add: dict_get_def)
  have h5: "[JStr ''a'', JStr ''b'', JStr ''c'']
              = (case recommended_answers ex_state ''skills'' of None \<Rightarrow> [] | Some a \<Rightarrow> a)"
    by (simp add: ex_state_def)
  have h6: "JNull \<notin> set [JStr ''a'', JStr ''b'', JStr ''c'']" by simp
  have h7: "take 2 [JStr ''a'', JStr ''b'', JStr ''c'']
            @ replicate (2 - length [JStr ''a'', JStr ''b'', JStr ''c'']) (JStr '''')
            = [JStr ''a'', JStr ''b'']" by simp
  have h8: "length [JStr ''q1'', JStr ''q2''] = 2" by simp
  show ?thesis
    using answers_length_invariant[OF h1 h2 h3 h4 h5] h6 unfolding h8 h7 by blast
qed

lemma apply_question_matches_nth:
  "i < length a \<Longrightarrow>
   apply_question_matches qm ua a ! i =
     (if (\<exists>m\<in>set qm. py_int m = Some (int i)) \<and> i < length ua \<and> py_truthy (ua ! i)
      then ua ! i else a ! i)"
  unfolding apply_question_matches_def
proof (induction qm arbitrary: a)
  case Nil
  then show ?case by simp
next
  case (Cons m qm)
  show ?case
  proof (cases "py_int m")
    case None
    then show ?thesis using Cons by simp
  next
    case (Some k)
    show ?thesis
    proof (cases "0 \<le> k \<and> k < int (length a) \<and> k < int (length ua) \<and> py_truthy (ua ! nat k)")
      case True
      then have "fold (\<lambda>match_idx ans.
             case py_int match_idx of
               None \<Rightarrow> ans
             | Some k \<Rightarrow>
                 if 0 \<le> k \<and> k < int (length ans) \<and> k < int (length ua)
                    \<and> py_truthy (ua ! nat k)
                 then ans[nat k := ua ! nat k]
                 else ans) qm (a[nat k := ua ! nat k]) ! i =
        (if (\<exists>m\<in>set qm. py_int m = Some (int i)) \<and> i < length ua \<and> py_truthy (ua ! i)
         then ua ! i else (a[nat k := ua ! nat k]) ! i)"
        using Cons.IH[of "a[nat k := ua ! nat k]"] Cons.prems by simp
      then show ?thesis using Some True Cons.prems
        by (cases "nat k = i") (auto simp: nth_list_update)
    next
      case False
      have "int i \<noteq> k \<or> \<not> (i < length ua \<and> py_truthy (ua ! i))"
        using False Cons.prems by auto
      then show ?thesis using Some False Cons.IH[of a] Cons.prems by auto
    qed
  qed
qed

lemma apply_question_matches_map:
  "apply_question_matches qm ua a =
     map (\<lambda>i. if (\<exists>m\<in>set qm. py_int m = Some (int i)) \<and> i < length ua \<and> py_truthy (ua ! i)
              then ua ! i else a ! i) [0..<length a]"
  by (rule nth_equalityI) (auto simp: apply_question_matches_nth)

lemma node_reconcile_answers:
  assumes "current_section st = Some cs" and "cs \<noteq> []"
      and "dict_has parsed ''question_matches'' \<or> dict_has parsed ''updated_answers''"
      and "recommended_answers st cs = Some answers"
  shows "snd (node_reconcile str_of st parsed user_text qs) =
           st\<lparr>recommended_answers := (recommended_answers st)
                 (cs \<mapsto> snd (reconcile_answers str_of parsed user_text qs answers))\<rparr>"
  using assms
  by (auto simp: node_reconcile_def Let_def split: prod.splits option.splits)

text \<open>
  Claim C4. When the decision holds both \<open>question_matches\<close> and \<open>updated_answers\<close>, both
  lists, the reconciliation block changes the state only in the answer array of the current
  section: slot \<open>i\<close> becomes \<open>updated_answers[i]\<close> exactly when \<open>i\<close> is listed in
  \<open>question_matches\<close> as an integer, \<open>i\<close> is an index of \<open>updated_answers\<close> and that value is
  truthy (for a string: non-empty); every other slot keeps its value.
\<close>

theorem question_matches_placement:
  assumes "current_section st = Some cs" and "cs \<noteq> []"
      and "recommended_answers st cs = Some answers"
      and "map_of parsed ''question_matches'' = Some (JArr question_matches)"
      and "map_of parsed ''updated_answers'' = Some (JArr updated_answers)"
  shows "snd (node_reconcile str_of st parsed user_text qs) =
           st\<lparr>recommended_answers := (recommended_answers st)
                 (cs \<mapsto> map (\<lambda>i. if (\<exists>m\<in>set question_matches. py_int m = Some (int i))
                                      \<and> i < length updated_answers
                                      \<and> py_truthy (updated_answers ! i)
                                   then updated_answers ! i else answers ! i)
                            [0..<length answers])\<rparr>"
proof -
  have has: "dict_has parsed ''question_matches''" "dict_has parsed ''updated_answers''"
    using assms(4,5) by (simp_all add: dict_has_def)
  have "reconcile_answers str_of parsed user_text qs answers =
          (None, apply_question_matches question_matches updated_answers answers)"
    using has assms(4,5) by (simp add: reconcile_answers_def dict_get_def)
  then show ?thesis
    using node_reconcile_answers[OF assms(1,2) _ assms(3), of parsed str_of user_text qs] has
    by (simp add: apply_question_matches_map)
qed

text \<open>
  The example of the claim: \<open>existing = ["a", "", ""]\<close>, three questions and the decision
  \<open>{question_matches: [2], updated_answers: ["", "", "z"]}\<close> give \<open>["a", "", "z"]\<close>.
\<close>

theorem question_matches_placement_witness:
  "recommended_answers
     (snd (node_reconcile str_unused (ex_answers_state [JStr ''a'', JStr '''', JStr ''''])
            [(''question_matches'', JArr [JInt 2]),
             (''updated_answers'', JArr [JStr '''', JStr '''', JStr ''z''])]
            ''z'' (JArr [JStr ''q1'', JStr ''q2'', JStr ''q3''])))
     ''skills'' = Some [JStr ''a'', JStr '''', JStr ''z'']"
proof -
  have h1: "current_section (ex_answers_state [JStr ''a'', JStr '''', JStr '''']) = Some ''skills''"
    by (simp add: ex_answers_state_def)
  have h2: "''skills'' \<noteq> []" by simp
  have h3: "recommended_answers (ex_answers_state [JStr ''a'', JStr '''', JStr '''']) ''skills''
              = Some [JStr ''a'', JStr '''', JStr '''']"
    by (simp add: ex_answers_state_def)
  have h4: "map_of [(''question_matches'', JArr [JInt 2]),
             (''updated_answers'', JArr [JStr '''', JStr '''', JStr ''z''])] ''question_matches''
            = Some (JArr [JInt 2])" by simp
  have h5: "map_of [(''question_matches'', JArr [JInt 2]),
             (''updated_answers'', JArr [JStr '''', JStr '''', JStr ''z''])] ''updated_answers''
            = Some (JArr [JStr '''', JStr '''', JStr ''z''])" by simp
  have up: "[0..<length [JStr ''a'', JStr '''', JStr '''']] = [0, 1, 2]"
    by code_simp
  show ?thesis
    unfolding question_matches_placement[OF h1 h2 h3 h4 h5] up
    by simp
qed

lemma threshold_fold_map:
  "k \<le> length a \<Longrightarrow>
   fold (\<lambda>i ans.
             if i < length ua \<and> py_truthy (ua ! i)
                \<and> (\<not> py_truthy (ans ! i) \<or> length (py_strip (py_str str_of (ans ! i))) < 5)
             then ans[i := ua ! i] else ans) [0..<k] a =
   map (\<lambda>i. if i < k \<and> i < length ua \<and> py_truthy (ua ! i)
                \<and> (\<not> py_truthy (a ! i) \<or> length (py_strip (py_str str_of (a ! i))) < 5)
             then ua ! i else a ! i) [0..<length a]"
proof (induction k)
  case 0
  then show ?case by (simp add: map_nth)
next
  case (Suc k)
  let ?prev = "map (\<lambda>i. if i < k \<and> i < length ua \<and> py_truthy (ua ! i)
                \<and> (\<not> py_truthy (a ! i) \<or> length (py_strip (py_str str_of (a ! i))) < 5)
             then ua ! i else a ! i) [0..<length a]"
  have pk: "?prev ! k = a ! k" using Suc.prems by simp
  show ?case
    using Suc.IH Suc.prems
    apply (simp only: upt_Suc_append[OF le0] fold_append comp_apply fold_simps)
    apply (simp only: Suc_leD pk)
    apply (rule nth_equalityI)
     apply (simp_all add: nth_list_update less_Suc_eq)
    apply auto
    done
qed

lemma threshold_pass_map:
  "threshold_pass str_of ua a =
   map (\<lambda>i. if i < length ua \<and> py_truthy (ua ! i)
                \<and> (\<not> py_truthy (a ! i) \<or> length (py_strip (py_str str_of (a ! i))) < 5)
             then ua ! i else a ! i) [0..<length a]"
  unfolding threshold_pass_def
  using threshold_fold_map[of "length a" a ua str_of]
  by (simp cong: map_cong)

text \<open>
  Claim C5, as the code has it. When the decision holds \<open>updated_answers\<close>, a list, and no
  \<open>question_matches\<close>, and the user text shares no word with any question (so that the
  keyword clause after the loop writes nothing), slot \<open>i\<close> becomes \<open>updated_answers[i]\<close>
  exactly when that value is truthy and the existing value is falsy or has fewer than 5
  characters once stripped; every other slot keeps its value. The threshold is strict:
  an existing answer of exactly 5 characters, such as \<open>"short"\<close>, is kept.
\<close>

theorem threshold_rule:
  assumes "current_section st = Some cs" and "cs \<noteq> []"
      and "recommended_answers st cs = Some answers"
      and "map_of parsed ''question_matches'' = None"
      and "map_of parsed ''updated_answers'' = Some (JArr updated_answers)"
      and "detect_question_matches user_text qs = Inr []"
  shows "snd (node_reconcile str_of st parsed user_text qs) =
           st\<lparr>recommended_answers := (recommended_answers st)
                 (cs \<mapsto> map (\<lambda>i. if i < length updated_answers
                                      \<and> py_truthy (updated_answers ! i)
                                      \<and> (\<not> py_truthy (answers ! i)
                                          \<or> length (py_strip (py_str str_of (answers ! i))) < 5)
                                   then updated_answers ! i else answers ! i)
                            [0..<length answers])\<rparr>"
proof -
  have has: "\<not> dict_has parsed ''question_matches''" "dict_has parsed ''updated_answers''"
    using assms(4,5) by (simp_all add: dict_has_def)
  have "reconcile_answers str_of parsed user_text qs answers =
          (None, threshold_pass str_of updated_answers answers)"
    using has assms(5,6) by (simp add: reconcile_answers_def keyword_fallback_def)
  then show ?thesis
    using node_reconcile_answers[OF assms(1,2) _ assms(3), of parsed str_of user_text qs] has
    by (simp add: threshold_pass_map)
qed

text \<open>
  A four-character answer is overwritten by \<open>"a fuller answer"\<close>, and \<open>"a sufficiently long
  prior answer"\<close> is not overwritten by \<open>"x"\<close>.
\<close>

theorem threshold_rule_witness:
  "recommended_answers
     (snd (node_reconcile str_unused
            (ex_answers_state [JStr ''shrt'', JStr ''a sufficiently long prior answer''])
            [(''updated_answers'', JArr [JStr ''a fuller answer'', JStr ''x''])]
            ''it went well'' (JArr [JStr ''Which frameworks?'', JStr ''Where?''])))
     ''skills'' = Some [JStr ''a fuller answer'', JStr ''a sufficiently long prior answer'']"
proof -
  let ?st = "ex_answers_state [JStr ''shrt'', JStr ''a sufficiently long prior answer'']"
  let ?parsed = "[(''updated_answers'', JArr [JStr ''a fuller answer'', JStr ''x''])]"
  have h1: "current_section ?st = Some ''skills''"
    by (simp add: ex_answers_state_def)
  have h2: "''skills'' \<noteq> []" by simp
  have h3: "recommended_answers ?st ''skills''
              = Some [JStr ''shrt'', JStr ''a sufficiently long prior answer'']"
    by (simp add: ex_answers_state_def)
  have h4: "map_of ?parsed ''question_matches'' = None" by simp
  have h5: "map_of ?parsed ''updated_answers'' = Some (JArr [JStr ''a fuller answer'', JStr ''x''])"
    by simp
  have h6: "detect_question_matches ''it went well'' (JArr [JStr ''Which frameworks?'', JStr ''Where?'']) = Inr []"
    by code_simp
  have up: "[0..<length [JStr ''shrt'', JStr ''a sufficiently long prior answer'']] = [0, 1]"
    by code_simp
  have l1: "length (py_strip ''shrt'') = 4" by code_simp
  have l2: "length (py_strip ''a sufficiently long prior answer'') = 32" by code_simp
  show ?thesis
    unfolding threshold_rule[OF h1 h2 h3 h4 h5 h6] up
    by (simp add: l1 l2)
qed

text \<open>
  The example of claim C5 as the spec states it: \<open>existing = ["short"]\<close> and
  \<open>updated_answers = ["a fuller answer"]\<close> without indices. \<open>"short"\<close> has 5 characters,
  not 4, and the slot keeps it.
\<close>

theorem short_answer_kept:
  "recommended_answers
     (snd (node_reconcile str_unused (ex_answers_state [JStr ''short''])
            [(''updated_answers'', JArr [JStr ''a fuller answer''])]
            ''it went well'' (JArr [JStr ''Which frameworks?''])))
     ''skills'' = Some [JStr ''short'']"
  by code_simp

text \<open>
  Claim C6 says that the keyword fallback runs only when no structured match is available,
  not after the threshold pass has placed answers. In the code the fallback is the \<open>else\<close>
  clause of the threshold loop, which has no \<open>break\<close>, so it runs after every pass. Here
  the pass has placed the answer in slot 1; the user text scores highest on question 0, and
  the fallback copies the same answer into slot 0.
\<close>

theorem fallback_runs_after_threshold_pass:
  "recommended_answers
     (snd (node_reconcile str_unused (ex_answers_state [JStr '''', JStr ''''])
       [(''updated_answers'', JArr [JStr '''', JStr ''Led a team of five''])]
       ''I used python frameworks with a team''
       (JArr [JStr ''Which python frameworks have you used'', JStr ''Have you led a team''])))
     ''skills''
   = Some [JStr ''Led a team of five'', JStr ''Led a team of five'']"
  by code_simp

text \<open>
  By the same clause a detailed answer is overwritten by a short one when the user text
  shares a word with the question.
\<close>

lemma fallback_overwrites_long_answer:
  "recommended_answers
     (snd (node_reconcile str_unused (ex_answers_state [JStr ''a sufficiently long prior answer''])
       [(''updated_answers'', JArr [JStr ''x''])]
       ''python''
       (JArr [JStr ''Which python frameworks have you used''])))
     ''skills''
   = Some [JStr ''x'']"
  by code_simp

section \<open>Properties of the parser, the gateway, the dispatch and the clone\<close>

lemma strip_nonempty: "py_strip s \<noteq> [] \<Longrightarrow> s \<noteq> []"
  by (auto simp: py_strip_def)

text \<open>
  Claim C7, as the code has it, for a text whose located object, when \<open>json.loads\<close> reads it
  as a dict with an \<open>action\<close>, has a hashable action (a string, number, boolean or null).
  The parser raises exactly when the text is empty or whitespace only, or an object is
  located and it is not valid JSON, not a dict, or has no \<open>action\<close> key. A text with
  content and no located object gives \<open>{action: "answer", route: null, answer: t}\<close> with \<open>t\<close>
  the text stripped of surrounding whitespace, and logs nothing. A located dict whose
  action is outside the six valid actions is returned with \<open>action\<close> set to \<open>"answer"\<close>, and
  one warning is logged.
\<close>

theorem parser_cases:
  assumes "\<forall>json_text parsed action.
             re_search_object raw_text = Some json_text
             \<and> loads json_text = Some (JObj parsed)
             \<and> map_of parsed ''action'' = Some action
             \<longrightarrow> py_hashable action"
  shows "((\<exists>e. snd (extract_and_validate_json loads raw_text) = Inl e) \<longleftrightarrow>
            py_strip raw_text = []
            \<or> (\<exists>json_text. re_search_object raw_text = Some json_text
                  \<and> (case loads json_text of
                        None \<Rightarrow> True
                      | Some (JObj parsed) \<Rightarrow> map_of parsed ''action'' = None
                      | Some _ \<Rightarrow> True)))
       \<and> (py_strip raw_text \<noteq> [] \<and> re_search_object raw_text = None \<longrightarrow>
            extract_and_validate_json loads raw_text =
              ([], Inr [(''action'', JStr ''answer''), (''route'', JNull),
                        (''answer'', JStr (py_strip raw_text))]))
       \<and> (\<forall>json_text parsed action.
             py_strip raw_text \<noteq> [] \<and> re_search_object raw_text = Some json_text
             \<and> loads json_text = Some (JObj parsed) \<and> map_of parsed ''action'' = Some action
             \<and> action \<notin> JStr ` valid_actions
             \<longrightarrow> extract_and_validate_json loads raw_text =
                   ([UnexpectedAction action],
                    Inr (AList.update ''action'' (JStr ''answer'') parsed)))"
proof (intro conjI)
  show "(\<exists>e. snd (extract_and_validate_json loads raw_text) = Inl e) \<longleftrightarrow>
            py_strip raw_text = []
            \<or> (\<exists>json_text. re_search_object raw_text = Some json_text
                  \<and> (case loads json_text of
                        None \<Rightarrow> True
                      | Some (JObj parsed) \<Rightarrow> map_of parsed ''action'' = None
                      | Some _ \<Rightarrow> True))"
    using assms strip_nonempty[of raw_text]
    by (auto simp: extract_and_validate_json_def split: option.splits json.splits)
next
  show "py_strip raw_text \<noteq> [] \<and> re_search_object raw_text = None \<longrightarrow>
            extract_and_validate_json loads raw_text =
              ([], Inr [(''action'', JStr ''answer''), (''route'', JNull),
                        (''answer'', JStr (py_strip raw_text))])"
    using strip_nonempty[of raw_text]
    by (auto simp: extract_and_validate_json_def)
next
  show "\<forall>json_text parsed action.
             py_strip raw_text \<noteq> [] \<and> re_search_object raw_text = Some json_text
             \<and> loads json_text = Some (JObj parsed) \<and> map_of parsed ''action'' = Some action
             \<and> action \<notin> JStr ` valid_actions
             \<longrightarrow> extract_and_validate_json loads raw_text =
                   ([UnexpectedAction action],
                    Inr (AList.update ''action'' (JStr ''answer'') parsed))"
    using assms strip_nonempty[of raw_text]
    by (auto simp: extract_and_validate_json_def)
qed

theorem parser_cases_witness:
  \<open>extract_and_validate_json loads_example ''Sure! {"action": "dance", "answer": "hi"} ok'' =
     ([UnexpectedAction (JStr ''dance'')],
      Inr [(''action'', JStr ''answer''), (''answer'', JStr ''hi'')])
   \<and> extract_and_validate_json loads_example ''  no json here  '' =
     ([], Inr [(''action'', JStr ''answer''), (''route'', JNull),
               (''answer'', JStr ''no json here'')])\<close>
proof -
  let ?raw = \<open>''Sure! {"action": "dance", "answer": "hi"} ok''\<close>
  let ?txt = \<open>''{"action": "dance", "answer": "hi"}''\<close>
  let ?d = "[(''action'', JStr ''dance''), (''answer'', JStr ''hi'')]"
  have s: "re_search_object ?raw = Some ?txt" by code_simp
  have l: "loads_example ?txt = Some (JObj ?d)" by (simp add: loads_example_def)
  have h: "\<forall>json_text parsed action.
             re_search_object ?raw = Some json_text
             \<and> loads_example json_text = Some (JObj parsed)
             \<and> map_of parsed ''action'' = Some action
             \<longrightarrow> py_hashable action"
    unfolding s using l by auto
  have n: "py_strip ?raw \<noteq> []" by code_simp
  have a: "map_of ?d ''action'' = Some (JStr ''dance'')" by simp
  have v: "JStr ''dance'' \<notin> JStr ` valid_actions" by (auto simp: valid_actions_def)
  have u: "AList.update ''action'' (JStr ''answer'') ?d
             = [(''action'', JStr ''answer''), (''answer'', JStr ''hi'')]" by simp
  have first: "extract_and_validate_json loads_example ?raw =
     ([UnexpectedAction (JStr ''dance'')],
      Inr [(''action'', JStr ''answer''), (''answer'', JStr ''hi'')])"
    using parser_cases[OF h] n s l a v u by metis
  let ?raw2 = "''  no json here  ''"
  have s2: "re_search_object ?raw2 = None" by code_simp
  have h2: "\<forall>json_text parsed action.
             re_search_object ?raw2 = Some json_text
             \<and> loads_example json_text = Some (JObj parsed)
             \<and> map_of parsed ''action'' = Some action
             \<longrightarrow> py_hashable action"
    unfolding s2 by simp
  have n2: "py_strip ?raw2 = ''no json here''" by code_simp
  have second: "extract_and_validate_json loads_example ?raw2 =
     ([], Inr [(''action'', JStr ''answer''), (''route'', JNull),
               (''answer'', JStr ''no json here'')])"
    using parser_cases[OF h2] s2 n2 by simp
  show ?thesis using first second by simp
qed

text \<open>
  Claim C7 as stated has the degraded answer equal to the original text. The code strips
  it: the text \<open>"  no json here  "\<close> gives the answer \<open>"no json here"\<close>.
\<close>

theorem degraded_answer_is_stripped:
  "snd (extract_and_validate_json loads_example ''  no json here  '') =
     Inr [(''action'', JStr ''answer''), (''route'', JNull), (''answer'', JStr ''no json here'')]
   \<and> ''no json here'' \<noteq> ''  no json here  ''"
  by code_simp

text \<open>
  An action that is a list or a dict makes the membership test in the set of valid actions
  raise \<open>TypeError\<close>, which the parser does not catch.
\<close>

lemma unhashable_action_raises:
  \<open>snd (extract_and_validate_json loads_example ''{"action": []}'') = Inl TypeError\<close>
  by code_simp

lemma call_llm_json_decision_never_raises:
  "\<exists>parsed. snd (call_llm_json_decision offline loads outcome) = Inr parsed"
  by (auto simp: call_llm_json_decision_def Let_def split: llm_outcome.splits sum.splits)

text \<open>
  Claim C3 says that a parser failure on the response text propagates from the gateway as
  a typed error. In the code the parser is called inside the \<open>try\<close> of the completion call
  and \<open>except Exception\<close> turns its \<open>ValueError\<close> into the safe default, the same value a
  transport failure gives: on the texts \<open>"{oops}"\<close> and \<open>""\<close> the parser raises and the
  gateway returns the apology decision.
\<close>

theorem parser_failure_swallowed:
  "snd (extract_and_validate_json loads_example ''{oops}'') = Inl ValueError
   \<and> snd (extract_and_validate_json loads_example '''') = Inl ValueError
   \<and> call_llm_json_decision False loads_example (Reply (Some ''{oops}'')) = (1, Inr error_decision)
   \<and> call_llm_json_decision False loads_example (Reply (Some '''')) = (1, Inr error_decision)
   \<and> call_llm_json_decision False loads_example Unreachable = (1, Inr error_decision)"
  by code_simp

text \<open>
  Claim C9. When \<open>src_node\<close> equals \<open>current_section\<close>, the function of the conditional
  edges returns \<open>END\<close>: the turn ends and no section node is entered again.
\<close>

theorem self_route_terminates:
  assumes "src_node st = current_section st"
  shows "route_to_section st = END"
  using assms by (simp add: route_to_section_def)

text \<open>
  A section node sets \<open>src_node\<close> to \<open>current_section\<close> when it is entered, so a turn that
  leaves \<open>current_section\<close> as it found it ends there.
\<close>

lemma node_enter_route: "route_to_section (node_enter st) = END"
  by (simp add: route_to_section_def node_enter_def)

theorem self_route_terminates_witness:
  "route_to_section (ResumeBuilderState_init\<lparr>current_section := Some ''skills'', src_node := Some ''skills''\<rparr>) = END"
proof -
  have "src_node (ResumeBuilderState_init\<lparr>current_section := Some ''skills'', src_node := Some ''skills''\<rparr>)
        = current_section (ResumeBuilderState_init\<lparr>current_section := Some ''skills'', src_node := Some ''skills''\<rparr>)"
    by simp
  then show ?thesis by (rule self_route_terminates)
qed

text \<open>
  Claim C10. \<open>clone_state\<close> carries over \<open>jd_summary\<close>, \<open>resume_sections\<close>,
  \<open>section_objects\<close>, \<open>context\<close>, \<open>current_section\<close>, \<open>cv_summary\<close> and
  \<open>recommended_answers\<close>, and leaves \<open>src_node\<close>, \<open>routing_attempts\<close> and \<open>resume_schema\<close>
  at their defaults, whatever the old state held.
\<close>

theorem clone_state_frame:
  "jd_summary (clone_state old_state) = jd_summary old_state
   \<and> resume_sections (clone_state old_state) = resume_sections old_state
   \<and> section_objects (clone_state old_state) = section_objects old_state
   \<and> context_msgs (clone_state old_state) = context_msgs old_state
   \<and> current_section (clone_state old_state) = current_section old_state
   \<and> cv_summary (clone_state old_state) = cv_summary old_state
   \<and> recommended_answers (clone_state old_state) = recommended_answers old_state
   \<and> src_node (clone_state old_state) = None
   \<and> routing_attempts (clone_state old_state) = 0
   \<and> resume_schema (clone_state old_state) = None"
  by (simp add: clone_state_def ResumeBuilderState_init_def)

section \<open>Properties of the router\<close>

text \<open>
  Claim C8. When \<open>current_section\<close> is set (a non-empty name) at the start of the turn, the
  router issues no completion request and does not consult the decision of the model: it
  appends one assistant message, the JSON text of \<open>{"route": current_section}\<close>, returns
  the state, and leaves every other field, \<open>current_section\<close> among them, as it was.
\<close>

theorem router_short_circuit:
  assumes "current_section st = Some cs" and "cs \<noteq> []"
  shows "general_chat_and_section_routing offline loads dumps llm st =
           (0, ReturnsState,
            st\<lparr>context_msgs := context_msgs st
                   @ [\<lparr>role = ''assistant'',
                       content = JStr (dumps (JObj [(''route'', JStr cs)]))\<rparr>]\<rparr>)"
  using assms
  by (cases cs)
     (simp_all add: general_chat_and_section_routing_def append_message_def make_message_def)

text \<open>With \<open>current_section = "skills"\<close> the signal is \<open>{"route": "skills"}\<close>.\<close>

theorem router_short_circuit_witness:
  "\<forall>offline loads dumps llm.
     general_chat_and_section_routing offline loads dumps llm (ex_answers_state []) =
       (0, ReturnsState,
        (ex_answers_state [])\<lparr>context_msgs :=
            [\<lparr>role = ''assistant'', content = JStr (dumps (JObj [(''route'', JStr ''skills'')]))\<rparr>]\<rparr>)
     \<and> current_section
          (snd (snd (general_chat_and_section_routing offline loads dumps llm (ex_answers_state []))))
         = Some ''skills''"
proof (intro allI)
  fix offline loads dumps llm
  have h1: "current_section (ex_answers_state []) = Some ''skills''"
    by (simp add: ex_answers_state_def)
  have h2: "''skills'' \<noteq> []" by simp
  have c: "context_msgs (ex_answers_state []) = []"
    by (simp add: ex_answers_state_def ResumeBuilderState_init_def)
  show "general_chat_and_section_routing offline loads dumps llm (ex_answers_state []) =
       (0, ReturnsState,
        (ex_answers_state [])\<lparr>context_msgs :=
            [\<lparr>role = ''assistant'', content = JStr (dumps (JObj [(''route'', JStr ''skills'')]))\<rparr>]\<rparr>)
     \<and> current_section
          (snd (snd (general_chat_and_section_routing offline loads dumps llm (ex_answers_state []))))
         = Some ''skills''"
    unfolding router_short_circuit[OF h1 h2] c using h1 by simp
qed

text \<open>In general chat mode and with credentials the router does ask the model.\<close>

lemma router_consults_llm:
  "current_section st = None \<Longrightarrow>
   1 \<le> fst (general_chat_and_section_routing False loads dumps llm st)"
  by (auto simp: general_chat_and_section_routing_def router_consult_def router_reply_def
        call_llm_json_decision_def Let_def
        split: llm_outcome.splits sum.splits json.splits option.splits list.splits prod.splits)

lemma aggregate_step_frame:
  "\<exists>cv. aggregate_step offline loads llm st section_name = st\<lparr>cv_summary := cv\<rparr>"
  unfolding aggregate_step_def Let_def
  by (auto split: sum.splits intro: exI[of _ "cv_summary st"])

section \<open>Properties of applying a section\<close>

text \<open>
  Claim C2, as the code has it. When the completion call of the re-analysis fails (not in
  offline mode), \<open>apply_section_changes\<close> does not roll anything back: the new content
  stays in \<open>resume_sections\<close>, \<open>cv_summary\<close> is what the aggregation step left, the answer
  array of the section is empty, \<open>section_objects\<close> and every other field are as before
  the call, and the analysis returned is the fixed error analysis, whose summary says that
  the changes have been saved.
\<close>

theorem apply_keeps_changes_on_failure:
  assumes "\<not> offline" and "llm AnalysisCall = Unreachable"
  shows "apply_section_changes offline loads llm st section_name updated_content =
           (st\<lparr>resume_sections := (resume_sections st)(section_name \<mapsto> updated_content),
               cv_summary :=
                 cv_summary (aggregate_step offline loads llm
                   (st\<lparr>resume_sections := (resume_sections st)(section_name \<mapsto> updated_content)\<rparr>)
                   section_name),
               recommended_answers := (recommended_answers st)(section_name \<mapsto> [])\<rparr>,
            error_analysis section_name)"
proof -
  let ?st1 = "st\<lparr>resume_sections := (resume_sections st)(section_name \<mapsto> updated_content)\<rparr>"
  obtain cv where cv: "aggregate_step offline loads llm ?st1 section_name = ?st1\<lparr>cv_summary := cv\<rparr>"
    using aggregate_step_frame by blast
  have "apply_section_changes offline loads llm st section_name updated_content =
          ((aggregate_step offline loads llm ?st1 section_name)
             \<lparr>recommended_answers :=
                (recommended_answers (aggregate_step offline loads llm ?st1 section_name))
                  (section_name \<mapsto> [])\<rparr>,
           error_analysis section_name)"
    using assms by (simp add: apply_section_changes_def reanalyze_step_def Let_def)
  then show ?thesis
    unfolding cv by simp
qed

theorem apply_keeps_changes_on_failure_witness:
  "snd (apply_section_changes False loads_example llm_analysis_down ex_apply_state
          ''skills'' (JStr ''new content'')) = error_analysis ''skills''
   \<and> resume_sections
        (fst (apply_section_changes False loads_example llm_analysis_down ex_apply_state
               ''skills'' (JStr ''new content''))) ''skills'' = Some (JStr ''new content'')
   \<and> recommended_answers
        (fst (apply_section_changes False loads_example llm_analysis_down ex_apply_state
               ''skills'' (JStr ''new content''))) ''skills'' = Some []
   \<and> section_objects
        (fst (apply_section_changes False loads_example llm_analysis_down ex_apply_state
               ''skills'' (JStr ''new content''))) = section_objects ex_apply_state"
proof -
  have h1: "\<not> False" by simp
  have h2: "llm_analysis_down AnalysisCall = Unreachable" by (simp add: llm_analysis_down_def)
  show ?thesis
    unfolding apply_keeps_changes_on_failure[of False llm_analysis_down, OF h1 h2]
    by (simp add: ex_apply_state_def)
qed

text \<open>
  Claim C2 as stated has every touched field back at its value before the call when an
  intermediate step fails. Here the analysis call fails, and the content, the summary and
  the answer array all differ from their values before the call.
\<close>

theorem apply_not_rolled_back:
  "resume_sections ex_apply_state ''skills'' = Some (JStr ''old content'')
   \<and> resume_sections
        (fst (apply_section_changes False loads_example llm_analysis_down ex_apply_state
               ''skills'' (JStr ''new content''))) ''skills'' = Some (JStr ''new content'')
   \<and> cv_summary ex_apply_state ''skills'' = None
   \<and> cv_summary
        (fst (apply_section_changes False loads_example llm_analysis_down ex_apply_state
               ''skills'' (JStr ''new content''))) ''skills'' = Some (JStr ''+Django for five years'')
   \<and> recommended_answers ex_apply_state ''skills'' = Some [JStr ''Django for five years'']
   \<and> recommended_answers
        (fst (apply_section_changes False loads_example llm_analysis_down ex_apply_state
               ''skills'' (JStr ''new content''))) ''skills'' = Some []"
  by code_simp

section \<open>Sections other than the current one\<close>

text \<open>The reconciliation block writes the answer array of the current section only.\<close>

lemma node_reconcile_other_section:
  assumes "current_section st = Some cs" and "s \<noteq> cs"
  shows "recommended_answers (snd (node_reconcile str_of st parsed user_text qs)) s
           = recommended_answers st s"
  using assms
  by (auto simp: node_reconcile_def Let_def split: option.splits prod.splits)

text \<open>
  Claim C1 as stated covers every initialised section after every reconciliation step.
  After an apply in \<open>skills\<close> whose analysis call failed, the answer array of \<open>skills\<close> is
  empty beside its one question. A turn in \<open>education\<close> then initialises and reconciles
  the array of \<open>education\<close> and leaves \<open>skills\<close> as it was: one question, no answer slot.
\<close>

theorem other_section_left_out_of_step:
  "node_init_answers ex_switched_state
     = Inr (ex_education_ready_state, JArr [JStr ''Which degree?''])
   \<and> section_objects
        (snd (node_reconcile str_unused ex_education_ready_state
               [(''question_matches'', JArr [JInt 0]), (''updated_answers'', JArr [JStr ''BSc''])]
               ''a BSc'' (JArr [JStr ''Which degree?''])))
        ''skills'' = Some [(''recommended_questions'', JArr [JStr ''Which frameworks?''])]
   \<and> recommended_answers
        (snd (node_reconcile str_unused ex_education_ready_state
               [(''question_matches'', JArr [JInt 0]), (''updated_answers'', JArr [JStr ''BSc''])]
               ''a BSc'' (JArr [JStr ''Which degree?''])))
        ''skills'' = Some []
   \<and> recommended_answers
        (snd (node_reconcile str_unused ex_education_ready_state
               [(''question_matches'', JArr [JInt 0]), (''updated_answers'', JArr [JStr ''BSc''])]
               ''a BSc'' (JArr [JStr ''Which degree?''])))
        ''education'' = Some [JStr ''BSc'']"
proof -
  have c: "current_section ex_switched_state = Some ''education''"
    by (simp add: ex_switched_state_def)
  have so: "section_objects ex_switched_state ''education''
              = Some [(''recommended_questions'', JArr [JStr ''Which degree?''])]"
    by code_simp
  have ra: "recommended_answers ex_switched_state ''education'' = None"
    by code_simp
  have a: "node_init_answers ex_switched_state
             = Inr (ex_education_ready_state, JArr [JStr ''Which degree?''])"
    by (simp add: node_init_answers_def compact_sections_def compact_section_def dict_get_def
          safe_initialize_answers_def c so ra ex_education_ready_state_def)
  have b: "section_objects
        (snd (node_reconcile str_unused ex_education_ready_state
               [(''question_matches'', JArr [JInt 0]), (''updated_answers'', JArr [JStr ''BSc''])]
               ''a BSc'' (JArr [JStr ''Which degree?''])))
        ''skills'' = Some [(''recommended_questions'', JArr [JStr ''Which frameworks?''])]"
    by code_simp
  have d: "recommended_answers
        (snd (node_reconcile str_unused ex_education_ready_state
               [(''question_matches'', JArr [JInt 0]), (''updated_answers'', JArr [JStr ''BSc''])]
               ''a BSc'' (JArr [JStr ''Which degree?''])))
        ''skills'' = Some []"
    by code_simp
  have e: "recommended_answers
        (snd (node_reconcile str_unused ex_education_ready_state
               [(''question_matches'', JArr [JInt 0]), (''updated_answers'', JArr [JStr ''BSc''])]
               ''a BSc'' (JArr [JStr ''Which degree?''])))
        ''education'' = Some [JStr ''BSc'']"
    by code_simp
  show ?thesis using a b d e by simp
qed

end
